theory Spec2Isabelle
  imports Main
begin

section \<open>Nepali date converter client: the request helpers of requests_example.py\<close>

text \<open>
  The module wraps one HTTP GET per conversion. The remote service is the environment:
  it is a parameter of every function that calls it, and each function returns the
  trace of the GETs it issued and of the pauses it made (\<open>time.sleep\<close>), so that
  theorems can count and order them. Printing is left out of the trace.
\<close>

subsection \<open>Python's \<open>str\<close> on integers and the endpoint URL\<close>

definition digit_char :: "nat \<Rightarrow> char" where
  "digit_char n = ''0123456789'' ! n"

fun str_nat :: "nat \<Rightarrow> string" where
  "str_nat n = (if n < 10 then [digit_char n] else str_nat (n div 10) @ [digit_char (n mod 10)])"

declare str_nat.simps [simp del]

definition str_int :: "int \<Rightarrow> string" where
  "str_int i = (if i < 0 then CHR ''-'' # str_nat (nat (- i)) else str_nat (nat i))"

text \<open>The f-string \<open>https://sudhanparajuli.com.np/api/{conversion_type}/{year}/{month}/{day}\<close>.\<close>

definition api_url :: "string \<Rightarrow> int \<Rightarrow> int \<Rightarrow> int \<Rightarrow> string" where
  "api_url conversion_type year month day =
     ''https://sudhanparajuli.com.np/api/'' @ conversion_type @ ''/'' @ str_int year
       @ ''/'' @ str_int month @ ''/'' @ str_int day"

subsection \<open>The network and the trace of effects\<close>

text \<open>
  What one \<open>requests.get(url, timeout=10)\<close> followed by \<open>raise_for_status()\<close>,
  \<open>json()\<close> and the reading of the body can come to:
  \<^item> \<open>Success r\<close>: a body whose \<open>success\<close> is truthy, with \<open>result\<close> r;
  \<^item> \<open>ApiError e\<close>: a body whose \<open>success\<close> is falsy or absent; e is
    \<open>data.get('error')\<close> (\<open>None\<close> when the body has no such field);
  \<^item> \<open>RequestException s\<close>: the call raised a \<open>requests.RequestException\<close>
    (a timeout, a connection failure, a bad status), s its text;
  \<^item> \<open>Malformed e\<close>: the body makes \<open>data.get\<close> or \<open>data['result']\<close> raise e,
    which is no \<open>RequestException\<close>: no handler of the module catches it.
\<close>

datatype error = KeyError string | AttributeError | ValueError | OverflowError

datatype 'r response =
    Success 'r
  | ApiError "string option"
  | RequestException string
  | Malformed error

datatype 't event = Request string | Sleep 't

text \<open>
  CPython's \<open>time.sleep\<close> on an \<open>int\<close> number of seconds. The seconds are first
  turned into nanoseconds held in a signed 64-bit integer, an \<open>OverflowError\<close> when
  they do not fit (more than 9223372036 seconds, in either direction); then a negative
  length is a \<open>ValueError\<close>. \<open>time_sleep\<close> gives the exception raised, or \<open>None\<close>
  when the pause is made and the call returns.
\<close>

definition time_sleep :: "int \<Rightarrow> error option" where
  "time_sleep secs =
     (if secs < - 9223372036 \<or> 9223372036 < secs then Some OverflowError
      else if secs < 0 then Some ValueError
      else None)"

fun is_request :: "'t event \<Rightarrow> bool" where
  "is_request (Request u) = True"
| "is_request (Sleep t) = False"

definition calls :: "'t event list \<Rightarrow> nat" where
  "calls tr = length (filter is_request tr)"

text \<open>The service answers the k-th GET of a run (k from 0) for a URL.\<close>

type_synonym 'r network = "nat \<Rightarrow> string \<Rightarrow> 'r response"

definition requests_get :: "'r network \<Rightarrow> string \<Rightarrow> 't event list \<Rightarrow> 'r response \<times> 't event list" where
  "requests_get net url tr = (net (calls tr) url, tr @ [Request url])"

fun is_failure :: "'r response \<Rightarrow> bool" where
  "is_failure (Success r) = False"
| "is_failure (ApiError e) = True"
| "is_failure (RequestException s) = True"
| "is_failure (Malformed e) = False"


fun is_malformed :: "'r response \<Rightarrow> bool" where
  "is_malformed (Malformed e) = True"
| "is_malformed r = False"

subsection \<open>convert_with_retry\<close>

text \<open>
  The body of \<open>for attempt in range(1, max_retries + 1)\<close>, over the attempts still to
  run. A body with \<open>success\<close> false only prints and falls through to the next
  attempt; the pause \<open>time.sleep(2 ** attempt)\<close> stands in the exception handler, so
  an exception of the pause itself leaves the function. The empty list is the end of the
  loop, where the function returns \<open>None\<close>.
\<close>

fun retry_loop ::
  "'r network \<Rightarrow> string \<Rightarrow> int \<Rightarrow> int list \<Rightarrow> int event list
     \<Rightarrow> (error + 'r option) \<times> int event list" where
  "retry_loop net url max_retries [] tr = (Inr None, tr)"
| "retry_loop net url max_retries (attempt # rest) tr =
     (case requests_get net url tr of
        (Success r, tr') \<Rightarrow> (Inr (Some r), tr')
      | (ApiError e, tr') \<Rightarrow> retry_loop net url max_retries rest tr'
      | (RequestException s, tr') \<Rightarrow>
          (if attempt < max_retries
           then (case time_sleep (2 ^ nat attempt) of
                   Some e \<Rightarrow> (Inl e, tr')
                 | None \<Rightarrow>
                     retry_loop net url max_retries rest (tr' @ [Sleep (2 ^ nat attempt)]))
           else (Inr None, tr'))
      | (Malformed e, tr') \<Rightarrow> (Inl e, tr'))"

definition convert_with_retry ::
  "'r network \<Rightarrow> int \<Rightarrow> int \<Rightarrow> int \<Rightarrow> string \<Rightarrow> int \<Rightarrow> int event list
     \<Rightarrow> (error + 'r option) \<times> int event list" where
  "convert_with_retry net year month day conversion_type max_retries tr =
     retry_loop net (api_url conversion_type year month day) max_retries [1..max_retries] tr"

text \<open>
  Callers may leave out \<open>conversion_type\<close> (then \<open>'ad-to-bs'\<close>) and
  \<open>max_retries\<close> (then 3).
\<close>

definition convert_with_retry_default_max_retries :: int where
  "convert_with_retry_default_max_retries = 3"

subsection \<open>DateConverterCache\<close>

record 'r DateConverterCache =
  cache :: "string \<rightharpoonup> 'r"

definition DateConverterCache_init :: "'r DateConverterCache" where
  "DateConverterCache_init = \<lparr>cache = Map.empty\<rparr>"

text \<open>The f-string \<open>{conv_type}-{year}-{month}-{day}\<close> of \<open>_generate_key\<close>.\<close>

definition generate_key :: "int \<Rightarrow> int \<Rightarrow> int \<Rightarrow> string \<Rightarrow> string" where
  "generate_key year month day conv_type =
     conv_type @ ''-'' @ str_int year @ ''-'' @ str_int month @ ''-'' @ str_int day"

text \<open>
  \<open>convert\<close> returns its value (or the exception that leaves it), the object with its
  updated mapping, and the trace. A key that is present is answered from the mapping
  before any URL is built.
\<close>

definition convert ::
  "'r network \<Rightarrow> 'r DateConverterCache \<Rightarrow> int \<Rightarrow> int \<Rightarrow> int \<Rightarrow> string \<Rightarrow> 't event list
     \<Rightarrow> (error + 'r option) \<times> 'r DateConverterCache \<times> 't event list" where
  "convert net self year month day conversion_type tr =
     (let key = generate_key year month day conversion_type in
      case cache self key of
        Some r \<Rightarrow> (Inr (Some r), self, tr)
      | None \<Rightarrow>
          (case requests_get net (api_url conversion_type year month day) tr of
             (Success r, tr') \<Rightarrow> (Inr (Some r), self\<lparr>cache := (cache self)(key \<mapsto> r)\<rparr>, tr')
           | (ApiError e, tr') \<Rightarrow> (Inr None, self, tr')
           | (RequestException s, tr') \<Rightarrow> (Inr None, self, tr')
           | (Malformed e, tr') \<Rightarrow> (Inl e, self, tr')))"

definition clear_cache :: "'r DateConverterCache \<Rightarrow> 'r DateConverterCache" where
  "clear_cache self = self\<lparr>cache := Map.empty\<rparr>"

subsection \<open>convert_batch_dates\<close>

type_synonym date = "int \<times> int \<times> int"

text \<open>
  The two shapes of dictionary the batch appends: \<open>{input, output, success: True}\<close> and
  \<open>{input, error, success: False}\<close>. The error of a body with \<open>success\<close> false is
  \<open>data.get('error')\<close>, that of an exception its text \<open>str(e)\<close>.
\<close>

datatype 'r outcome =
    Converted (item_input: date) (item_output: 'r)
  | Failed (item_input: date) (item_error: "string option")

fun success :: "'r outcome \<Rightarrow> bool" where
  "success (Converted i r) = True"
| "success (Failed i e) = False"

text \<open>
  The \<open>try\<close> statement of the loop body for one date: the dictionary it appends to
  \<open>results\<close>, or the exception that no handler catches.
\<close>

fun batch_item :: "date \<Rightarrow> 'r response \<Rightarrow> error + 'r outcome" where
  "batch_item date (Success r) = Inr (Converted date r)"
| "batch_item date (ApiError e) = Inr (Failed date e)"
| "batch_item date (RequestException s) = Inr (Failed date (Some s))"
| "batch_item date (Malformed e) = Inl e"

text \<open>
  The body of \<open>for year, month, day in dates\<close>, with the list \<open>results\<close> built so far.
  \<open>time.sleep(delay)\<close> is the last statement of the body, after the \<open>try\<close> and
  outside it: when it raises (a negative or not-a-number delay, one beyond the range of
  the C clock), the exception leaves the function. The delay is a Python float; the
  parameter \<open>sleep\<close> stands for \<open>time.sleep\<close> on it and gives the exception raised,
  or \<open>None\<close> when the pause is made.
\<close>

fun batch_loop ::
  "'r network \<Rightarrow> ('t \<Rightarrow> error option) \<Rightarrow> string \<Rightarrow> 't \<Rightarrow> date list \<Rightarrow> 'r outcome list
     \<Rightarrow> 't event list \<Rightarrow> (error + 'r outcome list) \<times> 't event list" where
  "batch_loop net sleep conversion_type delay [] results tr = (Inr results, tr)"
| "batch_loop net sleep conversion_type delay ((year, month, day) # dates) results tr =
     (case requests_get net (api_url conversion_type year month day) tr of
        (resp, tr') \<Rightarrow>
          (case batch_item (year, month, day) resp of
             Inl e \<Rightarrow> (Inl e, tr')
           | Inr item \<Rightarrow>
               (case sleep delay of
                  Some e \<Rightarrow> (Inl e, tr')
                | None \<Rightarrow>
                    batch_loop net sleep conversion_type delay dates
                      (results @ [item]) (tr' @ [Sleep delay]))))"

definition convert_batch_dates ::
  "'r network \<Rightarrow> ('t \<Rightarrow> error option) \<Rightarrow> date list \<Rightarrow> string \<Rightarrow> 't \<Rightarrow> 't event list
     \<Rightarrow> (error + 'r outcome list) \<times> 't event list" where
  "convert_batch_dates net sleep dates conversion_type delay tr =
     batch_loop net sleep conversion_type delay dates [] tr"

subsection \<open>Date validation\<close>

text \<open>
  \<open>is_valid_ad_date\<close> ends in \<open>datetime(year, month, day)\<close> of Python's standard
  library, whose constructor checks its fields as \<open>_check_date_fields\<close> does: the year
  within \<open>MINYEAR..MAXYEAR\<close>, the month within 1..12, the day within
  \<open>1.._days_in_month(year, month)\<close>, a \<open>ValueError\<close> otherwise. Python's \<open>%\<close>
  takes the sign of the divisor, as \<open>mod\<close> on \<open>int\<close> does.
\<close>

definition is_leap :: "int \<Rightarrow> bool" where
  "is_leap year = (year mod 4 = 0 \<and> (year mod 100 \<noteq> 0 \<or> year mod 400 = 0))"

definition DAYS_IN_MONTH :: "int list" where
  "DAYS_IN_MONTH = [-1, 31, 28, 31, 30, 31, 30, 31, 31, 30, 31, 30, 31]"

definition days_in_month :: "int \<Rightarrow> int \<Rightarrow> int" where
  "days_in_month year month =
     (if month = 2 \<and> is_leap year then 29 else DAYS_IN_MONTH ! nat month)"

definition datetime :: "int \<Rightarrow> int \<Rightarrow> int \<Rightarrow> error + date" where
  "datetime year month day =
     (if \<not> (1 \<le> year \<and> year \<le> 9999) then Inl ValueError
      else if \<not> (1 \<le> month \<and> month \<le> 12) then Inl ValueError
      else if \<not> (1 \<le> day \<and> day \<le> days_in_month year month) then Inl ValueError
      else Inr (year, month, day))"

definition is_valid_ad_date :: "int \<Rightarrow> int \<Rightarrow> int \<Rightarrow> bool" where
  "is_valid_ad_date year month day =
     (if \<not> (1943 \<le> year \<and> year \<le> 2042) then False
      else if \<not> (1 \<le> month \<and> month \<le> 12) then False
      else if \<not> (1 \<le> day \<and> day \<le> 31) then False
      else (case datetime year month day of Inr d \<Rightarrow> True | Inl e \<Rightarrow> False))"

definition is_valid_bs_date :: "int \<Rightarrow> int \<Rightarrow> int \<Rightarrow> bool" where
  "is_valid_bs_date year month day =
     (if \<not> (2000 \<le> year \<and> year \<le> 2099) then False
      else if \<not> (1 \<le> month \<and> month \<le> 12) then False
      else if \<not> (1 \<le> day \<and> day \<le> 32) then False
      else True)"

text \<open>
  The calendar as the specification words it: a real Gregorian date has a month from 1
  to 12 and a day no later than the month's last; April, June, September and November
  have 30 days, February 28, or 29 in a leap year (a year divisible by 4 and not by 100,
  or divisible by 400), every other month 31.
\<close>

definition leap_year :: "int \<Rightarrow> bool" where
  "leap_year y = ((4 dvd y \<and> \<not> 100 dvd y) \<or> 400 dvd y)"

definition month_length :: "int \<Rightarrow> int \<Rightarrow> int" where
  "month_length y m =
     (if m = 4 \<or> m = 6 \<or> m = 9 \<or> m = 11 then 30
      else if m = 2 then (if leap_year y then 29 else 28)
      else 31)"

definition real_calendar_date :: "int \<Rightarrow> int \<Rightarrow> int \<Rightarrow> bool" where
  "real_calendar_date y m d = (1 \<le> m \<and> m \<le> 12 \<and> 1 \<le> d \<and> d \<le> month_length y m)"

subsection \<open>Formatting helpers\<close>

text \<open>
  \<open>str.zfill(width)\<close>: zeros on the left up to the width, after a leading sign.
\<close>

definition zfill :: "nat \<Rightarrow> string \<Rightarrow> string" where
  "zfill width s =
     (if length s \<ge> width then s
      else (case s of
              c # cs \<Rightarrow>
                (if c = CHR ''+'' \<or> c = CHR ''-''
                 then c # replicate (width - length s) CHR ''0'' @ cs
                 else replicate (width - length s) CHR ''0'' @ s)
            | [] \<Rightarrow> replicate width CHR ''0''))"

text \<open>
  \<open>str.replace(old, new)\<close>: every occurrence of \<open>old\<close>, found from the left without
  overlap; an empty \<open>old\<close> matches before every character and at the end.
\<close>

function str_replace :: "string \<Rightarrow> string \<Rightarrow> string \<Rightarrow> string" where
  "str_replace s old new =
     (if old = [] then new @ concat (map (\<lambda>c. c # new) s)
      else if s = [] then []
      else if take (length old) s = old then new @ str_replace (drop (length old) s) old new
      else hd s # str_replace (tl s) old new)"
  by pat_completeness auto
termination
  by (relation "measure (\<lambda>(s, old, new). length s)") auto

declare str_replace.simps [simp del]

text \<open>
  A date dictionary is a list of key and value pairs, read at a key's first pair;
  \<open>None\<close> stands for Python's \<open>None\<close>. \<open>date_dict['year']\<close> on a dictionary
  without that key raises \<open>KeyError\<close>.
\<close>

type_synonym date_dict = "(string \<times> int) list"

definition getitem :: "date_dict \<Rightarrow> string \<Rightarrow> error + int" where
  "getitem d k = (case map_of d k of None \<Rightarrow> Inl (KeyError k) | Some v \<Rightarrow> Inr v)"

definition format_nepali_date :: "date_dict option \<Rightarrow> string \<Rightarrow> error + string" where
  "format_nepali_date date_dict format_str =
     (case date_dict of
        None \<Rightarrow> Inr []
      | Some d \<Rightarrow>
          (if d = [] then Inr []
           else (case getitem d ''year'' of
                   Inl e \<Rightarrow> Inl e
                 | Inr y \<Rightarrow>
                     (case getitem d ''month'' of
                        Inl e \<Rightarrow> Inl e
                      | Inr m \<Rightarrow>
                          (case getitem d ''day'' of
                             Inl e \<Rightarrow> Inl e
                           | Inr dd \<Rightarrow>
                               Inr (str_replace
                                      (str_replace
                                         (str_replace format_str ''YYYY'' (str_int y))
                                         ''MM'' (zfill 2 (str_int m)))
                                      ''DD'' (zfill 2 (str_int dd))))))))"

definition format_ad_date :: "date_dict option \<Rightarrow> string \<Rightarrow> error + string" where
  "format_ad_date date_dict format_str = format_nepali_date date_dict format_str"

text \<open>The format strings a caller gets when it passes none.\<close>

definition format_nepali_date_default :: string where
  "format_nepali_date_default = ''YYYY/MM/DD''"

definition format_ad_date_default :: string where
  "format_ad_date_default = ''YYYY-MM-DD''"

subsection \<open>Traces of the retry loop, for the statements below\<close>



subsection \<open>Sample services, for the concrete runs below\<close>



definition healthy :: "date_dict network" where
  "healthy k url = Success [(''year'', 2081), (''month'', 6), (''day'', 29)]"

definition second_rejected :: "date_dict network" where
  "second_rejected k url =
     (if k = 1 then ApiError (Some ''Invalid date'')
      else Success [(''year'', 2080), (''month'', 9), (''day'', 17)])"

definition second_malformed :: "date_dict network" where
  "second_malformed k url =
     (if k = 1 then Malformed (KeyError ''result'')
      else Success [(''year'', 2080), (''month'', 9), (''day'', 17)])"

definition rejects_then_timeout :: "date_dict network" where
  "rejects_then_timeout k url =
     (if k < 33 then ApiError (Some ''Invalid date'')
      else RequestException ''Read timed out'')"

definition down_then_up :: "date_dict network" where
  "down_then_up k url =
     (if k = 0 then RequestException ''Connection refused''
      else Success [(''year'', 2081), (''month'', 6), (''day'', 29)])"

subsection \<open>The outcomes and the trace of a batch, for the statements below\<close>

definition date_url :: "string \<Rightarrow> date \<Rightarrow> string" where
  "date_url conversion_type date =
     (case date of (year, month, day) \<Rightarrow> api_url conversion_type year month day)"

text \<open>
  An outcome reports on a date and the answer to its GET: \<open>{input, output, success:
  True}\<close> for a result, \<open>{input, error, success: False}\<close> for a failure.
\<close>

fun reports :: "date \<Rightarrow> 'r response \<Rightarrow> 'r outcome \<Rightarrow> bool" where
  "reports date (Success r) item = (item = Converted date r)"
| "reports date (ApiError e) item = (item = Failed date e)"
| "reports date (RequestException s) item = (item = Failed date (Some s))"
| "reports date (Malformed e) item = False"

text \<open>One GET and one pause of the configured delay for each date, in order.\<close>

definition batch_trace :: "string \<Rightarrow> 't \<Rightarrow> date list \<Rightarrow> 't event list" where
  "batch_trace conversion_type delay dates =
     concat (map (\<lambda>date. [Request (date_url conversion_type date), Sleep delay]) dates)"

section \<open>Properties\<close>

subsection \<open>Counting the GETs of a trace\<close>

lemma calls_append [simp]: "calls (xs @ ys) = calls xs + calls ys"
  by (simp add: calls_def)

lemma calls_Nil [simp]: "calls [] = 0"
  by (simp add: calls_def)

lemma calls_Request [simp]: "calls (Request u # tr) = Suc (calls tr)"
  by (simp add: calls_def)

lemma calls_Sleep [simp]: "calls (Sleep t # tr) = calls tr"
  by (simp add: calls_def)

subsection \<open>Retry\<close>






text \<open>
  The pause of the 34th attempt is past what \<open>time.sleep\<close> takes: with
  \<open>max_retries = 35\<close>, 33 answers with \<open>success\<close> false and then a timeout, the call
  makes 34 GETs and leaves with \<open>OverflowError\<close>.
\<close>

lemma convert_with_retry_overflow_run:
  "fst (convert_with_retry rejects_then_timeout 2024 10 15 ''ad-to-bs'' 35 []) = Inl OverflowError
   \<and> calls (snd (convert_with_retry rejects_then_timeout 2024 10 15 ''ad-to-bs'' 35 [])) = 34"
  by code_simp




text \<open>
  C2 (as amended). With \<open>max_retries = 0\<close> the range of attempts is empty:
  \<open>convert_with_retry\<close> makes no GET at all and returns \<open>None\<close>, whatever the service
  would have answered.
\<close>

theorem convert_with_retry_zero:
  "convert_with_retry net year month day conversion_type 0 tr = (Inr None, tr)"
  by (simp add: convert_with_retry_def)

theorem convert_with_retry_zero_counterexample:
  "convert_with_retry healthy 2024 10 15 ''ad-to-bs'' 0 [] = (Inr None, [])
   \<and> calls (snd (convert_with_retry healthy 2024 10 15 ''ad-to-bs'' 0 [])) \<noteq> 1"
  by (simp add: convert_with_retry_def)

subsection \<open>Cache\<close>

text \<open>
  C3. For every conversion type, year, month and day: two calls of
  \<open>DateConverterCache.convert\<close> on the same instance with identical arguments, the
  first of which goes to the service and succeeds, issue exactly one GET in total. The
  first call stores the result under the key; the second returns the stored result from
  the mapping and adds nothing to the trace.
\<close>

theorem convert_twice_one_request:
  assumes "cache self (generate_key year month day conversion_type) = None"
    and "net (calls tr) (api_url conversion_type year month day) = Success r"
  shows "(let (r1, self1, tr1) = convert net self year month day conversion_type tr;
              (r2, self2, tr2) = convert net self1 year month day conversion_type tr1
          in r1 = Inr (Some r)
           \<and> cache self1 (generate_key year month day conversion_type) = Some r
           \<and> r2 = Inr (Some r)
           \<and> self2 = self1
           \<and> tr2 = tr1
           \<and> tr2 = tr @ [Request (api_url conversion_type year month day)]
           \<and> calls tr2 = calls tr + 1)"
  using assms by (simp add: convert_def requests_get_def Let_def)

theorem convert_twice_one_request_witness:
  "(let (r1, self1, tr1) = convert healthy DateConverterCache_init 2024 10 15 ''ad-to-bs'' ([] :: int event list);
        (r2, self2, tr2) = convert healthy self1 2024 10 15 ''ad-to-bs'' tr1
    in r1 = Inr (Some [(''year'', 2081), (''month'', 6), (''day'', 29)])
     \<and> r2 = Inr (Some [(''year'', 2081), (''month'', 6), (''day'', 29)])
     \<and> tr2 = [Request ''https://sudhanparajuli.com.np/api/ad-to-bs/2024/10/15'']
     \<and> calls tr2 = 1)"
proof -
  have url: "api_url ''ad-to-bs'' 2024 10 15 = ''https://sudhanparajuli.com.np/api/ad-to-bs/2024/10/15''"
    by code_simp
  have miss: "cache (DateConverterCache_init :: date_dict DateConverterCache)
      (generate_key 2024 10 15 ''ad-to-bs'') = None"
    by (simp add: DateConverterCache_init_def)
  have ok: "healthy (calls ([] :: int event list)) (api_url ''ad-to-bs'' 2024 10 15)
      = Success [(''year'', 2081), (''month'', 6), (''day'', 29)]"
    by (simp add: healthy_def)
  show ?thesis
    using convert_twice_one_request[where self = DateConverterCache_init and net = healthy
        and tr = "[] :: int event list" and conversion_type = "''ad-to-bs''"
        and year = 2024 and month = 10 and day = 15, OF miss ok]
    by (simp add: url split: prod.splits)
qed

text \<open>
  C4. For every conversion type, year, month and day: a call of
  \<open>DateConverterCache.convert\<close> that fails (it returns \<open>None\<close>: the GET raised a
  request exception, a timeout among them, or the body had \<open>success\<close> false) leaves the
  object, and so its cache mapping, as it was, and the next call with the same arguments
  issues a GET of its own.
\<close>

theorem convert_failure_not_cached:
  assumes "fst (convert net self year month day conversion_type tr) = Inr None"
  shows "convert net self year month day conversion_type tr
           = (Inr None, self, tr @ [Request (api_url conversion_type year month day)])
       \<and> is_failure (net (calls tr) (api_url conversion_type year month day))
       \<and> snd (snd (convert net self year month day conversion_type
                      (tr @ [Request (api_url conversion_type year month day)])))
           = tr @ [Request (api_url conversion_type year month day),
                   Request (api_url conversion_type year month day)]"
  using assms
  by (auto simp: convert_def requests_get_def Let_def split: option.splits response.splits)

theorem convert_failure_not_cached_witness:
  "convert down_then_up DateConverterCache_init 2024 10 15 ''ad-to-bs'' ([] :: int event list)
     = (Inr None, DateConverterCache_init,
        [Request ''https://sudhanparajuli.com.np/api/ad-to-bs/2024/10/15''])
   \<and> snd (snd (convert down_then_up DateConverterCache_init 2024 10 15 ''ad-to-bs''
                  [Request ''https://sudhanparajuli.com.np/api/ad-to-bs/2024/10/15'' :: int event]))
     = [Request ''https://sudhanparajuli.com.np/api/ad-to-bs/2024/10/15'',
        Request ''https://sudhanparajuli.com.np/api/ad-to-bs/2024/10/15'']"
proof -
  have url: "api_url ''ad-to-bs'' 2024 10 15 = ''https://sudhanparajuli.com.np/api/ad-to-bs/2024/10/15''"
    by code_simp
  have failed: "fst (convert down_then_up DateConverterCache_init 2024 10 15 ''ad-to-bs''
      ([] :: int event list)) = Inr None"
    by (simp add: convert_def requests_get_def DateConverterCache_init_def down_then_up_def)
  show ?thesis
    using convert_failure_not_cached[where self = DateConverterCache_init
        and net = down_then_up and tr = "[] :: int event list"
        and conversion_type = "''ad-to-bs''" and year = 2024 and month = 10 and day = 15,
        OF failed]
    by (simp add: url)
qed

subsection \<open>Batch\<close>

lemma batch_trace_Cons:
  "batch_trace ct delay (date # dates)
     = Request (date_url ct date) # Sleep delay # batch_trace ct delay dates"
  by (simp add: batch_trace_def)

lemma batch_item_reports:
  "\<not> is_malformed resp \<Longrightarrow> \<exists>item. batch_item date resp = Inr item \<and> reports date resp item"
  by (cases resp) simp_all

lemma batch_loop_run:
  assumes "\<forall>i < length dates. \<not> is_malformed (net (calls tr + i) (date_url ct (dates ! i)))"
    and "sleep delay = None"
  shows "\<exists>out. batch_loop net sleep ct delay dates results tr
            = (Inr (results @ out), tr @ batch_trace ct delay dates)
          \<and> length out = length dates
          \<and> (\<forall>i < length dates.
                reports (dates ! i) (net (calls tr + i) (date_url ct (dates ! i))) (out ! i))"
  using assms(1)
proof (induction dates arbitrary: results tr)
  case Nil
  then show ?case by (simp add: batch_trace_def)
next
  case (Cons date dates)
  obtain year month day where date: "date = (year, month, day)"
    by (cases date) auto
  let ?url = "api_url ct year month day"
  let ?tr = "tr @ [Request ?url, Sleep delay]"
  have url: "date_url ct date = ?url" by (simp add: date date_url_def)
  have head: "\<not> is_malformed (net (calls tr) ?url)"
    using Cons.prems url by fastforce
  have rest: "\<forall>i < length dates. \<not> is_malformed (net (calls ?tr + i) (date_url ct (dates ! i)))"
  proof (intro allI impI)
    fix i assume "i < length dates"
    then have "\<not> is_malformed (net (calls tr + Suc i) (date_url ct ((date # dates) ! Suc i)))"
      using Cons.prems by (metis Suc_less_eq length_Cons)
    then show "\<not> is_malformed (net (calls ?tr + i) (date_url ct (dates ! i)))" by simp
  qed
  from batch_item_reports[OF head, of date] obtain item where
    made: "batch_item date (net (calls tr) ?url) = Inr item"
    and item: "reports date (net (calls tr) ?url) item"
    by blast
  have unfold: "batch_loop net sleep ct delay (date # dates) results tr
          = batch_loop net sleep ct delay dates (results @ [item]) ?tr"
    using made assms(2) by (simp add: date requests_get_def)
  from Cons.IH[OF rest, of "results @ [item]"] obtain out where
    run: "batch_loop net sleep ct delay dates (results @ [item]) ?tr
            = (Inr ((results @ [item]) @ out), ?tr @ batch_trace ct delay dates)"
    and len: "length out = length dates"
    and each: "\<forall>i < length dates.
        reports (dates ! i) (net (calls ?tr + i) (date_url ct (dates ! i))) (out ! i)"
    by blast
  have "batch_loop net sleep ct delay (date # dates) results tr
      = (Inr (results @ item # out), tr @ batch_trace ct delay (date # dates))"
    using unfold run by (simp add: batch_trace_Cons url)
  moreover have "length (item # out) = length (date # dates)"
    using len by simp
  moreover have "\<forall>i < length (date # dates).
      reports ((date # dates) ! i) (net (calls tr + i) (date_url ct ((date # dates) ! i)))
        ((item # out) ! i)"
  proof (intro allI impI)
    fix i assume i: "i < length (date # dates)"
    show "reports ((date # dates) ! i) (net (calls tr + i) (date_url ct ((date # dates) ! i)))
        ((item # out) ! i)"
    proof (cases i)
      case 0
      then show ?thesis using item by (simp add: url)
    next
      case (Suc j)
      then have "j < length dates" using i by simp
      with each have "reports (dates ! j) (net (calls ?tr + j) (date_url ct (dates ! j))) (out ! j)"
        by blast
      then show ?thesis using Suc by simp
    qed
  qed
  ultimately show ?case by blast
qed

text \<open>
  Whatever the answers and the pauses do, the trace of a batch is an initial part of
  GET, delay, GET, delay, ... over the dates in order.
\<close>

lemma batch_loop_initial_part:
  "\<exists>n. snd (batch_loop net sleep ct delay dates results tr)
         = tr @ take n (batch_trace ct delay dates)"
proof (induction dates arbitrary: results tr)
  case Nil
  then show ?case by simp
next
  case (Cons date dates)
  obtain year month day where date: "date = (year, month, day)"
    by (cases date) auto
  let ?url = "api_url ct year month day"
  let ?tr = "tr @ [Request ?url, Sleep delay]"
  have url: "date_url ct date = ?url" by (simp add: date date_url_def)
  have stop: "\<exists>n. tr @ [Request ?url] = tr @ take n (batch_trace ct delay (date # dates))"
    by (rule exI[of _ 1]) (simp add: batch_trace_Cons url)
  show ?case
  proof (cases "batch_item date (net (calls tr) ?url)")
    case (Inl e)
    then show ?thesis using stop by (simp add: date requests_get_def)
  next
    case (Inr item)
    show ?thesis
    proof (cases "sleep delay")
      case (Some e)
      then show ?thesis using Inr stop by (simp add: date requests_get_def)
    next
      case None
      from Cons.IH[of "results @ [item]" ?tr] obtain n where
        n: "snd (batch_loop net sleep ct delay dates (results @ [item]) ?tr)
              = ?tr @ take n (batch_trace ct delay dates)"
        by blast
      have "snd (batch_loop net sleep ct delay (date # dates) results tr)
          = tr @ take (Suc (Suc n)) (batch_trace ct delay (date # dates))"
        using Inr None n by (simp add: date requests_get_def batch_trace_Cons date_url_def)
      then show ?thesis by blast
    qed
  qed
qed

lemma reports_input: "reports date resp item \<Longrightarrow> item_input item = date"
  by (cases resp) auto

lemma calls_batch_trace: "calls (batch_trace ct delay dates) = length dates"
  by (induction dates) (simp_all add: batch_trace_def)

text \<open>
  C5 (as amended). For every list of dates, when each answer of the service is a
  request exception, a body with \<open>success\<close> true and its \<open>result\<close>, or a body with
  \<open>success\<close> false, and \<open>time.sleep\<close> takes the delay, \<open>convert_batch_dates\<close> returns
  a list of the same length whose i-th outcome reports on the i-th date, in input order,
  as \<open>{input, output, success: True}\<close> or as \<open>{input, error, success: False}\<close>. A
  failure of one item of these kinds (a request exception or a body with \<open>success\<close>
  false) does not end the batch: every date gets its GET and its outcome.
\<close>

theorem convert_batch_dates_outcomes:
  assumes "\<forall>i < length dates. \<not> is_malformed (net (calls tr + i) (date_url conversion_type (dates ! i)))"
    and "sleep delay = None"
  shows "(case fst (convert_batch_dates net sleep dates conversion_type delay tr) of
            Inl e \<Rightarrow> False
          | Inr results \<Rightarrow>
              length results = length dates
            \<and> (\<forall>i < length dates.
                  item_input (results ! i) = dates ! i
                \<and> reports (dates ! i)
                     (net (calls tr + i) (date_url conversion_type (dates ! i))) (results ! i)))
       \<and> calls (snd (convert_batch_dates net sleep dates conversion_type delay tr))
           = calls tr + length dates"
proof -
  from batch_loop_run[where sleep = sleep and delay = delay and results = "[]", OF assms]
  obtain out where
    run: "convert_batch_dates net sleep dates conversion_type delay tr
            = (Inr out, tr @ batch_trace conversion_type delay dates)"
    and len: "length out = length dates"
    and each: "\<forall>i < length dates.
        reports (dates ! i) (net (calls tr + i) (date_url conversion_type (dates ! i))) (out ! i)"
    by (auto simp: convert_batch_dates_def)
  have inputs: "\<forall>i < length dates. item_input (out ! i) = dates ! i"
    using each reports_input by blast
  show ?thesis
    using len each inputs by (simp add: run calls_batch_trace)
qed

theorem convert_batch_dates_outcomes_witness:
  "fst (convert_batch_dates second_rejected time_sleep
          [(2024, 1, 1), (2024, 13, 1), (2024, 12, 31)] ''ad-to-bs'' 1 [])
     = Inr [Converted (2024, 1, 1) [(''year'', 2080), (''month'', 9), (''day'', 17)],
            Failed (2024, 13, 1) (Some ''Invalid date''),
            Converted (2024, 12, 31) [(''year'', 2080), (''month'', 9), (''day'', 17)]]
   \<and> calls (snd (convert_batch_dates second_rejected time_sleep
                    [(2024, 1, 1), (2024, 13, 1), (2024, 12, 31)] ''ad-to-bs'' 1 [])) = 3"
proof -
  let ?dates = "[(2024, 1, 1), (2024, 13, 1), (2024, 12, 31)] :: date list"
  have wf: "\<forall>i < length ?dates.
      \<not> is_malformed (second_rejected (calls ([] :: int event list) + i)
            (date_url ''ad-to-bs'' (?dates ! i)))"
    by (simp add: second_rejected_def)
  have pause: "time_sleep 1 = None"
    by (simp add: time_sleep_def)
  note run = convert_batch_dates_outcomes[where net = second_rejected and dates = ?dates
      and tr = "[] :: int event list" and conversion_type = "''ad-to-bs''"
      and sleep = time_sleep and delay = 1, OF wf pause]
  obtain results where
    res: "fst (convert_batch_dates second_rejected time_sleep ?dates ''ad-to-bs'' 1 []) = Inr results"
    using run by (auto split: sum.splits)
  have len: "length results = 3"
    and each: "\<forall>i < 3. reports (?dates ! i)
        (second_rejected (calls ([] :: int event list) + i) (date_url ''ad-to-bs'' (?dates ! i)))
        (results ! i)"
    and n: "calls (snd (convert_batch_dates second_rejected time_sleep ?dates ''ad-to-bs'' 1 [])) = 3"
    using run by (simp_all add: res)
  have r0: "results ! 0 = Converted (2024, 1, 1) [(''year'', 2080), (''month'', 9), (''day'', 17)]"
    using each[rule_format, of 0] by (simp add: second_rejected_def)
  have r1: "results ! 1 = Failed (2024, 13, 1) (Some ''Invalid date'')"
    using each[rule_format, of 1] by (simp add: second_rejected_def)
  have r2: "results ! 2 = Converted (2024, 12, 31) [(''year'', 2080), (''month'', 9), (''day'', 17)]"
    using each[rule_format, of 2] by (simp add: second_rejected_def)
  have "results = [results ! 0, results ! 1, results ! 2]"
    using len by (intro nth_equalityI) (auto simp: less_Suc_eq numeral_3_eq_3 numeral_2_eq_2)
  then have "results = [Converted (2024, 1, 1) [(''year'', 2080), (''month'', 9), (''day'', 17)],
      Failed (2024, 13, 1) (Some ''Invalid date''),
      Converted (2024, 12, 31) [(''year'', 2080), (''month'', 9), (''day'', 17)]]"
    using r0 r1 r2 by simp
  with res n show ?thesis by simp
qed

text \<open>
  The claim as the specification states it fails on a body that has \<open>success\<close> true
  and no \<open>result\<close>: the \<open>KeyError\<close> of the second item is not a request exception, so
  it ends the batch; no list is returned and the third date gets no GET.
\<close>

theorem convert_batch_dates_abort_counterexample:
  "convert_batch_dates second_malformed time_sleep
     [(2024, 1, 1), (2024, 6, 15), (2024, 12, 31)] ''ad-to-bs'' 1 []
     = (Inl (KeyError ''result''),
        [Request ''https://sudhanparajuli.com.np/api/ad-to-bs/2024/1/1'', Sleep 1,
         Request ''https://sudhanparajuli.com.np/api/ad-to-bs/2024/6/15''])"
  by code_simp

text \<open>
  C6 (as amended). In \<open>convert_batch_dates\<close> a delay only ever follows a GET: every
  run is an initial part of GET, delay, GET, delay, ... over the dates in input order,
  so no delay comes before the first GET. When the batch runs to its end (each answer is
  a request exception, a body with \<open>success\<close> true and its \<open>result\<close>, or a body with
  \<open>success\<close> false, and \<open>time.sleep\<close> takes the delay), the configured delay follows
  every GET, the last one included: the run is GET, delay, ..., GET, delay, and ends in
  a delay.
\<close>

theorem convert_batch_dates_trace:
  "(\<exists>n. snd (convert_batch_dates net sleep dates conversion_type delay tr)
          = tr @ take n (batch_trace conversion_type delay dates))
   \<and> ((\<forall>i < length dates.
          \<not> is_malformed (net (calls tr + i) (date_url conversion_type (dates ! i))))
        \<and> sleep delay = None
      \<longrightarrow> snd (convert_batch_dates net sleep dates conversion_type delay tr)
            = tr @ batch_trace conversion_type delay dates
        \<and> (if dates = []
           then snd (convert_batch_dates net sleep dates conversion_type delay tr) = tr
           else last (snd (convert_batch_dates net sleep dates conversion_type delay tr))
                  = Sleep delay))"
proof (intro conjI impI)
  show "\<exists>n. snd (convert_batch_dates net sleep dates conversion_type delay tr)
          = tr @ take n (batch_trace conversion_type delay dates)"
    unfolding convert_batch_dates_def by (rule batch_loop_initial_part)
next
  assume ok: "(\<forall>i < length dates.
          \<not> is_malformed (net (calls tr + i) (date_url conversion_type (dates ! i))))
        \<and> sleep delay = None"
  from batch_loop_run[where sleep = sleep and delay = delay and results = "[]",
      OF conjunct1[OF ok] conjunct2[OF ok]] have
    run: "snd (convert_batch_dates net sleep dates conversion_type delay tr)
            = tr @ batch_trace conversion_type delay dates"
    by (auto simp: convert_batch_dates_def)
  then show "snd (convert_batch_dates net sleep dates conversion_type delay tr)
            = tr @ batch_trace conversion_type delay dates" .
  show "if dates = []
           then snd (convert_batch_dates net sleep dates conversion_type delay tr) = tr
           else last (snd (convert_batch_dates net sleep dates conversion_type delay tr))
                  = Sleep delay"
  proof (cases dates rule: rev_cases)
    case Nil
    then show ?thesis using run by (simp add: batch_trace_def)
  next
    case (snoc ds date)
    then have "last (tr @ batch_trace conversion_type delay dates) = Sleep delay"
      and "dates \<noteq> []"
      by (simp_all add: batch_trace_def)
    then show ?thesis by (simp add: run)
  qed
qed

theorem convert_batch_dates_trace_witness:
  "snd (convert_batch_dates second_rejected time_sleep
          [(2024, 1, 1), (2024, 13, 1), (2024, 12, 31)] ''ad-to-bs'' 1 [])
     = [Request ''https://sudhanparajuli.com.np/api/ad-to-bs/2024/1/1'', Sleep 1,
        Request ''https://sudhanparajuli.com.np/api/ad-to-bs/2024/13/1'', Sleep 1,
        Request ''https://sudhanparajuli.com.np/api/ad-to-bs/2024/12/31'', Sleep 1]"
proof -
  let ?dates = "[(2024, 1, 1), (2024, 13, 1), (2024, 12, 31)] :: date list"
  have wf: "\<forall>i < length ?dates.
      \<not> is_malformed (second_rejected (calls ([] :: int event list) + i)
            (date_url ''ad-to-bs'' (?dates ! i)))"
    by (simp add: second_rejected_def)
  have pause: "time_sleep 1 = None"
    by (simp add: time_sleep_def)
  have urls: "api_url ''ad-to-bs'' 2024 1 1 = ''https://sudhanparajuli.com.np/api/ad-to-bs/2024/1/1''"
    "api_url ''ad-to-bs'' 2024 13 1 = ''https://sudhanparajuli.com.np/api/ad-to-bs/2024/13/1''"
    "api_url ''ad-to-bs'' 2024 12 31 = ''https://sudhanparajuli.com.np/api/ad-to-bs/2024/12/31''"
    by code_simp+
  show ?thesis
    using convert_batch_dates_trace[where net = second_rejected and dates = ?dates
        and tr = "[] :: int event list" and conversion_type = "''ad-to-bs''"
        and sleep = time_sleep and delay = 1] wf pause
    by (simp add: batch_trace_def date_url_def urls)
qed

text \<open>
  The claim as the specification states it fails on a batch of one date: the delay comes
  after the only, and so the last, GET.
\<close>

theorem convert_batch_dates_trailing_delay_counterexample:
  "snd (convert_batch_dates healthy time_sleep [(2024, 1, 1)] ''ad-to-bs'' 1 [])
     = [Request ''https://sudhanparajuli.com.np/api/ad-to-bs/2024/1/1'', Sleep 1]"
  by code_simp

text \<open>
  A delay that \<open>time.sleep\<close> refuses ends the batch after the first GET, with no
  outcome and no delay.
\<close>

lemma convert_batch_dates_negative_delay_run:
  "convert_batch_dates healthy time_sleep [(2024, 1, 1), (2024, 6, 15)] ''ad-to-bs'' (- 1) []
     = (Inl ValueError, [Request ''https://sudhanparajuli.com.np/api/ad-to-bs/2024/1/1''])"
  by code_simp

subsection \<open>Validation\<close>

lemma is_leap_iff: "is_leap y \<longleftrightarrow> leap_year y"
  unfolding is_leap_def leap_year_def by presburger

lemma days_in_month_eq:
  assumes "1 \<le> m" and "m \<le> 12"
  shows "days_in_month y m = month_length y m"
proof -
  from assms have "m = 1 \<or> m = 2 \<or> m = 3 \<or> m = 4 \<or> m = 5 \<or> m = 6
      \<or> m = 7 \<or> m = 8 \<or> m = 9 \<or> m = 10 \<or> m = 11 \<or> m = 12"
    by presburger
  then show ?thesis
    by (elim disjE) (simp_all add: days_in_month_def month_length_def DAYS_IN_MONTH_def is_leap_iff)
qed

lemma datetime_eq:
  "datetime y m d =
     (if 1 \<le> y \<and> y \<le> 9999 \<and> real_calendar_date y m d then Inr (y, m, d) else Inl ValueError)"
  using days_in_month_eq[of m y] by (auto simp: datetime_def real_calendar_date_def)

text \<open>
  C7. \<open>is_valid_ad_date(year, month, day)\<close> is true for exactly the triples with
  \<open>1943 \<le> year \<le> 2042\<close>, \<open>1 \<le> month \<le> 12\<close>, \<open>1 \<le> day \<le> 31\<close> that form a real
  Gregorian calendar date, and false for every other triple: a month 13, a day 32, and
  a day 31 in a month of 30 days are all refused.
\<close>

theorem is_valid_ad_date_iff:
  "(is_valid_ad_date year month day \<longleftrightarrow>
      1943 \<le> year \<and> year \<le> 2042 \<and> 1 \<le> month \<and> month \<le> 12 \<and> 1 \<le> day \<and> day \<le> 31
      \<and> real_calendar_date year month day)
   \<and> \<not> is_valid_ad_date year 13 day
   \<and> \<not> is_valid_ad_date year month 32
   \<and> \<not> is_valid_ad_date year 4 31"
proof -
  have main: "is_valid_ad_date y m d \<longleftrightarrow>
      1943 \<le> y \<and> y \<le> 2042 \<and> 1 \<le> m \<and> m \<le> 12 \<and> 1 \<le> d \<and> d \<le> 31 \<and> real_calendar_date y m d"
    for y m d
    by (auto simp: is_valid_ad_date_def datetime_eq)
  show ?thesis
    by (simp add: main real_calendar_date_def month_length_def)
qed

theorem is_valid_ad_date_iff_witness:
  "is_valid_ad_date 2024 2 29 \<and> \<not> is_valid_ad_date 2023 2 29 \<and> is_valid_ad_date 1943 1 1
   \<and> is_valid_ad_date 2042 12 31 \<and> \<not> is_valid_ad_date 2043 1 1 \<and> \<not> is_valid_ad_date 1942 12 31
   \<and> \<not> is_valid_ad_date 2024 13 1 \<and> \<not> is_valid_ad_date 2024 6 32 \<and> \<not> is_valid_ad_date 2024 4 31"
  using is_valid_ad_date_iff[of 2024 2 29] is_valid_ad_date_iff[of 2023 2 29]
    is_valid_ad_date_iff[of 1943 1 1] is_valid_ad_date_iff[of 2042 12 31]
    is_valid_ad_date_iff[of 2043 1 1] is_valid_ad_date_iff[of 1942 12 31]
    is_valid_ad_date_iff[of 2024 6 1]
  by (simp add: real_calendar_date_def month_length_def leap_year_def)

text \<open>
  C8. \<open>is_valid_bs_date(year, month, day)\<close> is true for exactly the triples with
  \<open>2000 \<le> year \<le> 2099\<close>, \<open>1 \<le> month \<le> 12\<close>, \<open>1 \<le> day \<le> 32\<close>, and false
  otherwise. It checks no day count per month: within these ranges the answer does not
  depend on the month, and day 32 is accepted for every month.
\<close>

theorem is_valid_bs_date_iff:
  "(is_valid_bs_date year month day \<longleftrightarrow>
      2000 \<le> year \<and> year \<le> 2099 \<and> 1 \<le> month \<and> month \<le> 12 \<and> 1 \<le> day \<and> day \<le> 32)
   \<and> (2000 \<le> year \<and> year \<le> 2099 \<and> 1 \<le> month \<and> month \<le> 12
        \<longrightarrow> is_valid_bs_date year month 32)"
  by (auto simp: is_valid_bs_date_def)

theorem is_valid_bs_date_iff_witness:
  "is_valid_bs_date 2081 6 29 \<and> is_valid_bs_date 2081 2 32 \<and> is_valid_bs_date 2099 12 32
   \<and> \<not> is_valid_bs_date 2081 6 33 \<and> \<not> is_valid_bs_date 2100 1 1 \<and> \<not> is_valid_bs_date 1999 12 30
   \<and> \<not> is_valid_bs_date 2081 0 1 \<and> \<not> is_valid_bs_date 2081 13 1 \<and> \<not> is_valid_bs_date 2081 1 0"
  using is_valid_bs_date_iff[of 2081 6 29] is_valid_bs_date_iff[of 2081 2 32]
    is_valid_bs_date_iff[of 2099 12 32] is_valid_bs_date_iff[of 2081 6 33]
    is_valid_bs_date_iff[of 2100 1 1] is_valid_bs_date_iff[of 1999 12 30]
    is_valid_bs_date_iff[of 2081 0 1] is_valid_bs_date_iff[of 2081 13 1]
    is_valid_bs_date_iff[of 2081 1 0]
  by simp

subsection \<open>Formatting\<close>

text \<open>
  C9. \<open>format_nepali_date\<close> applied to the dictionary \<open>{year: 2081, month: 6, day:
  29}\<close> returns \<open>2081/06/29\<close> for the format string \<open>YYYY/MM/DD\<close> and
  \<open>29-06-2081\<close> for \<open>DD-MM-YYYY\<close>, month and day padded with a zero to two digits.
\<close>

theorem format_nepali_date_examples:
  "format_nepali_date (Some [(''year'', 2081), (''month'', 6), (''day'', 29)]) ''YYYY/MM/DD''
     = Inr ''2081/06/29''
   \<and> format_nepali_date (Some [(''year'', 2081), (''month'', 6), (''day'', 29)]) ''DD-MM-YYYY''
     = Inr ''29-06-2081''"
  by code_simp

text \<open>
  C10. For an empty or absent date dictionary (\<open>{}\<close> or \<open>None\<close>),
  \<open>format_nepali_date\<close> returns the empty string whatever the format string, and reads
  no field (no \<open>KeyError\<close> arises). \<open>format_ad_date\<close> equals \<open>format_nepali_date\<close> on
  every dictionary and format string, and so does the same.
\<close>

theorem format_empty_date_dict:
  "format_nepali_date None format_str = Inr []
   \<and> format_nepali_date (Some []) format_str = Inr []
   \<and> format_ad_date date_dict format_str = format_nepali_date date_dict format_str
   \<and> format_ad_date None format_str = Inr []
   \<and> format_ad_date (Some []) format_str = Inr []"
  by (simp add: format_nepali_date_def format_ad_date_def)

end
